theory Spec2Isabelle
  imports Complex_Main
begin

section \<open>Configuration and result records of the exposure-time engine\<close>

text \<open>
  The notebook builds a nested configuration dictionary, passes it to the engine's
  \<^verbatim>\<open>perform_calculation\<close> and reads fields of the nested result dictionary. Only the
  key paths the notebook sets or reads are modelled; each nested dictionary is a record.
\<close>

record instrument_cfg =
  filter_name :: string
  detector_name :: string

record detector_cfg =
  nexp :: int
  nresultants :: int
  ma_table_name :: string

record normalization_cfg =
  norm_type :: string
  norm_flux :: real
  norm_fluxunit :: string
  norm_waveunit :: string
  bandpass :: string

record sed_cfg =
  sed_type :: string
  sed_key :: string

record calc =
  instrument :: instrument_cfg
  detector :: detector_cfg
  normalization :: normalization_cfg
  sed :: sed_cfg

record scalars =
  sn :: real
  total_exposure_time :: real
  sat_nresultants :: int

record report =
  scalar :: scalars
  warnings :: "string \<rightharpoonup> string"

datatype error = EngineError string | ValueError string

text \<open>
  The engine is an external library: it is a parameter of every function below. A call
  either raises (\<open>Inl\<close>) or returns a report. The list of configurations handed to the
  engine so far is threaded through every function, so that the number, the order and
  the arguments of the external evaluations can be stated.
\<close>

type_synonym engine = "calc \<Rightarrow> error + report"

definition perform_calculation :: "engine \<Rightarrow> calc \<Rightarrow> calc list \<Rightarrow> (error + report) \<times> calc list" where
  "perform_calculation eng c tr = (eng c, tr @ [c])"

text \<open>Assignments to one key path of the configuration dictionary.\<close>

definition set_nexp :: "int \<Rightarrow> calc \<Rightarrow> calc" where
  "set_nexp n c = c\<lparr>detector := (detector c)\<lparr>nexp := n\<rparr>\<rparr>"

definition set_nresultants :: "int \<Rightarrow> calc \<Rightarrow> calc" where
  "set_nresultants n c = c\<lparr>detector := (detector c)\<lparr>nresultants := n\<rparr>\<rparr>"

definition set_filter :: "string \<Rightarrow> calc \<Rightarrow> calc" where
  "set_filter f c = c\<lparr>instrument := (instrument c)\<lparr>filter_name := f\<rparr>\<rparr>"

definition set_norm_flux :: "real \<Rightarrow> calc \<Rightarrow> calc" where
  "set_norm_flux m c = c\<lparr>normalization := (normalization c)\<lparr>norm_flux := m\<rparr>\<rparr>"

definition set_norm_fluxunit :: "string \<Rightarrow> calc \<Rightarrow> calc" where
  "set_norm_fluxunit u c = c\<lparr>normalization := (normalization c)\<lparr>norm_fluxunit := u\<rparr>\<rparr>"

definition set_norm_waveunit :: "string \<Rightarrow> calc \<Rightarrow> calc" where
  "set_norm_waveunit u c = c\<lparr>normalization := (normalization c)\<lparr>norm_waveunit := u\<rparr>\<rparr>"

section \<open>Magnitude sweep\<close>

text \<open>
  \<^verbatim>\<open>for m in range(len(mag_range))\<close>: one engine call per magnitude, the achieved SNR
  appended to \<^verbatim>\<open>computed_snrs\<close>. The configuration is mutated in place, so it is passed
  on to the next iteration. An exception of the engine ends the loop.
\<close>

fun mag_loop :: "engine \<Rightarrow> int list \<Rightarrow> calc \<Rightarrow> real list \<Rightarrow> calc list
    \<Rightarrow> (error + real list) \<times> calc list" where
  "mag_loop eng [] c snrs tr = (Inr snrs, tr)"
| "mag_loop eng (mag # mags) c snrs tr =
     (let c' = set_norm_flux (of_int mag) c in
      case perform_calculation eng c' tr of
        (Inl e, tr') \<Rightarrow> (Inl e, tr')
      | (Inr rep, tr') \<Rightarrow> mag_loop eng mags c' (snrs @ [sn (scalar rep)]) tr')"

text \<open>
  \<^verbatim>\<open>np.arange\<close> is an external routine and a parameter: \<open>arange start stop\<close> stands for
  the values of the array \<^verbatim>\<open>np.arange(start, stop, 1)\<close>, in order. With integer
  arguments the elements are integers or floats of integral value, so they are given as
  integers. On the 64-bit platforms of the notebook an integer array has elements of 64
  bits: when \<open>start\<close> and \<open>stop\<close> both fit a signed 64-bit integer, the array holds the
  integers from \<open>start\<close> to \<open>stop - 1\<close>. Nothing is fixed here for other arguments.
\<close>

type_synonym arange = "int \<Rightarrow> int \<Rightarrow> int list"

definition int64 :: "int \<Rightarrow> bool" where
  "int64 i = (- (2 ^ 63) \<le> i \<and> i < 2 ^ 63)"

definition arange_int64 :: "arange \<Rightarrow> bool" where
  "arange_int64 ar =
     (\<forall>start stop. int64 start \<and> int64 stop \<longrightarrow> ar start stop = [start..stop - 1])"

text \<open>
  \<^verbatim>\<open>compute_mag(filt, nexp, bracket=(18, 30))\<close>. The default configuration comes from
  the engine's \<^verbatim>\<open>build_default_calc\<close> and is a parameter. The magnitudes are
  \<^verbatim>\<open>np.arange(bracket[0], bracket[1]+1, 1)\<close>; the sum \<^verbatim>\<open>bracket[1]+1\<close> is one of
  Python's unbounded integers.
\<close>

definition default_mag_bracket :: "int \<times> int" where
  "default_mag_bracket = (18, 30)"

definition mag_base :: "calc \<Rightarrow> string \<Rightarrow> int \<Rightarrow> calc" where
  "mag_base default_calc filt n =
     set_filter filt (set_nexp n
       (set_norm_waveunit ''um'' (set_norm_fluxunit ''abmag'' default_calc)))"

definition compute_mag :: "engine \<Rightarrow> arange \<Rightarrow> calc \<Rightarrow> string \<Rightarrow> int \<Rightarrow> int \<times> int
    \<Rightarrow> calc list \<Rightarrow> (error + int list \<times> real list) \<times> calc list" where
  "compute_mag eng arange default_calc filt n bracket tr =
     (let c = mag_base default_calc filt n;
          mag_range = arange (fst bracket) (snd bracket + 1)
      in case mag_loop eng mag_range c [] tr of
           (Inl e, tr') \<Rightarrow> (Inl e, tr')
         | (Inr computed_snrs, tr') \<Rightarrow> (Inr (mag_range, computed_snrs), tr'))"

section \<open>Exposure-count optimisation\<close>

text \<open>Python's \<^verbatim>\<open>int(x)\<close> on a float truncates toward zero.\<close>

definition py_int :: "real \<Rightarrow> int" where
  "py_int x = (if 0 \<le> x then \<lfloor>x\<rfloor> else \<lceil>x\<rceil>)"

text \<open>
  \<^verbatim>\<open>_nexp2sn_(nexp, calc, sntarget)\<close>: writes the truncated trial count into the shared
  configuration, evaluates it, and returns the squared deviation from the target.
\<close>

definition nexp2sn :: "engine \<Rightarrow> real \<Rightarrow> real \<Rightarrow> calc \<times> calc list
    \<Rightarrow> (error + real) \<times> calc \<times> calc list" where
  "nexp2sn eng x sntarget st =
     (let c = set_nexp (py_int x) (fst st) in
      case perform_calculation eng c (snd st) of
        (Inl e, tr') \<Rightarrow> (Inl e, c, tr')
      | (Inr rep, tr') \<Rightarrow> (Inr ((sntarget - sn (scalar rep))\<^sup>2), c, tr'))"

text \<open>
  \<^verbatim>\<open>minimize_scalar\<close> is an external routine. All it can do with the objective is call
  it: a run of the minimiser is a tree that either ends with its result \<^verbatim>\<open>res['x']\<close>,
  raises, or asks for the objective at a trial point and continues with the value it got.
  The tree is well-founded, as the routine stops after a bounded number of iterations.
  The minimiser itself, a parameter, maps the bounds and the tolerance to such a tree.
\<close>

datatype minimizer_run =
    Result real
  | Raises error
  | Trial real "real \<Rightarrow> minimizer_run"

type_synonym minimizer = "real \<times> real \<Rightarrow> real \<Rightarrow> minimizer_run"

primrec run_minimizer :: "engine \<Rightarrow> real \<Rightarrow> minimizer_run \<Rightarrow> calc \<times> calc list
    \<Rightarrow> (error + real) \<times> calc \<times> calc list" where
  "run_minimizer eng sntarget (Result x) st = (Inr x, st)"
| "run_minimizer eng sntarget (Raises e) st = (Inl e, st)"
| "run_minimizer eng sntarget (Trial x k) st =
     (case nexp2sn eng x sntarget st of
        (Inl e, st') \<Rightarrow> (Inl e, st')
      | (Inr y, st') \<Rightarrow> run_minimizer eng sntarget (k y) st')"

definition default_nexp_bracket :: "real \<times> real" where
  "default_nexp_bracket = (1, 1000)"

definition default_xtol :: real where
  "default_xtol = 1 / 10"

text \<open>
  The configuration of the first evaluation: the default one with the source's magnitude,
  the filter, one exposure and the truncation to 8 resultants, assigned in this order.
\<close>

definition nexp_start :: "calc \<Rightarrow> string \<Rightarrow> real \<Rightarrow> calc" where
  "nexp_start default_calc filt mag =
     set_nresultants 8 (set_nexp 1 (set_filter filt (set_norm_waveunit ''um''
       (set_norm_fluxunit ''abmag'' (set_norm_flux mag default_calc)))))"

text \<open>
  \<^verbatim>\<open>compute_nexp(filt, sn, mag, bracket=(1, 1000), xtol=0.1)\<close> returns the triple
  \<^verbatim>\<open>(nexp, report, exptime)\<close>.
\<close>

definition compute_nexp :: "engine \<Rightarrow> minimizer \<Rightarrow> calc \<Rightarrow> string \<Rightarrow> real \<Rightarrow> real
    \<Rightarrow> real \<times> real \<Rightarrow> real \<Rightarrow> calc list \<Rightarrow> (error + int \<times> report \<times> real) \<times> calc list" where
  "compute_nexp eng minimize_scalar default_calc filt sntarget mag bracket xtol tr =
     (let c = nexp_start default_calc filt mag in
      case perform_calculation eng c tr of
        (Inl e, tr1) \<Rightarrow> (Inl e, tr1)
      | (Inr rep, tr1) \<Rightarrow>
          if sn (scalar rep) > sntarget
          then (Inr (1, rep, total_exposure_time (scalar rep)), tr1)
          else
            (case run_minimizer eng sntarget (minimize_scalar bracket xtol) (c, tr1) of
               (Inl e, c2, tr2) \<Rightarrow> (Inl e, tr2)
             | (Inr x, c2, tr2) \<Rightarrow>
                 (let n = py_int x;
                      c3 = set_nexp n c2
                  in case perform_calculation eng c3 tr2 of
                       (Inl e, tr3) \<Rightarrow> (Inl e, tr3)
                     | (Inr rep', tr3) \<Rightarrow>
                         (let n' = (if sn (scalar rep') < sntarget then n + 1 else n)
                          in (Inr (n', rep', total_exposure_time (scalar rep')), tr3)))))"

section \<open>SNR-to-magnitude interpolation\<close>

text \<open>
  Modelled from the spec: the interpolator \<^verbatim>\<open>interpolate.interp1d\<close> is an external
  routine, "a generic 1-D interpolator" that builds a linear interpolant over the sample points
  and for which a target outside the range of the sampled abscissae "is an extrapolation
  error condition (out-of-domain) that must be surfaced, not silently approximated".
  The sample points are ordered by abscissa; the range is from the first to the last of
  them. Arrays of different lengths, and empty ones, are rejected.
\<close>

fun segment :: "(real \<times> real) list \<Rightarrow> real \<Rightarrow> real" where
  "segment [] x = 0"
| "segment [(x0, y0)] x = y0"
| "segment ((x0, y0) # (x1, y1) # ps) x =
     (if x \<le> x1 \<or> ps = [] then y0 + (y1 - y0) / (x1 - x0) * (x - x0)
      else segment ((x1, y1) # ps) x)"

definition interp1d :: "real list \<Rightarrow> real list \<Rightarrow> real \<Rightarrow> error + real" where
  "interp1d xs ys x_new =
     (if length xs \<noteq> length ys
      then Inl (ValueError ''x and y arrays must be equal in length along interpolation axis.'')
      else if xs = []
      then Inl (ValueError ''x and y arrays must have at least 1 entries'')
      else
        (let pts = sort_key fst (zip xs ys) in
         if x_new < fst (hd pts)
         then Inl (ValueError ''A value in x_new is below the interpolation range.'')
         else if fst (last pts) < x_new
         then Inl (ValueError ''A value in x_new is above the interpolation range.'')
         else Inr (segment pts x_new)))"

text \<open>
  \<^verbatim>\<open>_mag2sn_(mag_range, computed_snrs, sntarget)\<close>: the achieved SNRs are the abscissae,
  the magnitudes the ordinates; the interpolator is called with its default options and
  its exception is not caught.
\<close>

definition mag2sn :: "int list \<Rightarrow> real list \<Rightarrow> real \<Rightarrow> error + real" where
  "mag2sn mag_range computed_snrs sntarget =
     interp1d computed_snrs (map of_int mag_range) sntarget"

section \<open>Saturation back-off scan\<close>

text \<open>
  The scan is a top-level notebook cell: it works on the notebook's global variables.
  \<^verbatim>\<open>nresultant\<close> is not assigned before the cell, so it is optional; \<^verbatim>\<open>printed\<close> is
  the text written to the output, one entry per \<^verbatim>\<open>print\<close>; \<^verbatim>\<open>calls\<close> is the list
  of configurations handed to the engine.
\<close>

record notebook =
  nb_calc :: calc
  nb_report :: report
  nresultant :: "int option"
  printed :: "string list"
  calls :: "calc list"

text \<open>Decimal text of an integer, as an f-string renders it.\<close>

fun str_nat :: "nat \<Rightarrow> string" where
  "str_nat n =
     (if n < 10 then [char_of (48 + n)]
      else str_nat (n div 10) @ [char_of (48 + n mod 10)])"

definition str_int :: "int \<Rightarrow> string" where
  "str_int i = (if i < 0 then CHR ''-'' # str_nat (nat (- i)) else str_nat (nat i))"

text \<open>
  \<^verbatim>\<open>for n in reversed(range(10))\<close>, the list of the remaining values of \<open>n\<close> as
  argument. \<^verbatim>\<open>warnings.get(key)\<close> is \<open>None\<close> for an absent key. The \<^verbatim>\<open>break\<close>
  ends the recursion.
\<close>

fun scan_loop :: "engine \<Rightarrow> nat list \<Rightarrow> notebook \<Rightarrow> error + notebook" where
  "scan_loop eng [] nb = Inr nb"
| "scan_loop eng (n # ns) nb =
     (let resultant = int n + 1;
          c = set_nresultants resultant (nb_calc nb)
      in case perform_calculation eng c (calls nb) of
           (Inl e, tr) \<Rightarrow> Inl e
         | (Inr rep, tr) \<Rightarrow>
             (let nb' = nb\<lparr>nb_calc := c, nb_report := rep, calls := tr\<rparr>;
                  partial = warnings rep ''partial_saturated'';
                  full = warnings rep ''full_saturated''
              in if partial = None \<and> full = None
                 then Inr (nb'\<lparr>nresultant := Some resultant,
                               printed := printed nb' @
                                 [''No saturation happens with resultant '' @ str_int resultant]\<rparr>)
                 else scan_loop eng ns nb'))"

definition saturation_scan :: "engine \<Rightarrow> notebook \<Rightarrow> error + notebook" where
  "saturation_scan eng nb = scan_loop eng (rev [0..<10]) nb"

text \<open>A truncation level is clean when the report at that level has neither warning.\<close>

definition clean_at :: "engine \<Rightarrow> calc \<Rightarrow> int \<Rightarrow> bool" where
  "clean_at eng c r =
     (case eng (set_nresultants r c) of
        Inl e \<Rightarrow> False
      | Inr rep \<Rightarrow> warnings rep ''partial_saturated'' = None \<and>
                   warnings rep ''full_saturated'' = None)"

text \<open>A level is saturated when the engine returns a report with one of the two warnings.\<close>

definition saturated_at :: "engine \<Rightarrow> calc \<Rightarrow> int \<Rightarrow> bool" where
  "saturated_at eng c r =
     (case eng (set_nresultants r c) of
        Inl e \<Rightarrow> False
      | Inr rep \<Rightarrow> warnings rep ''partial_saturated'' \<noteq> None \<or>
                   warnings rep ''full_saturated'' \<noteq> None)"

section \<open>Contract of the bounded minimiser\<close>

text \<open>
  The bounded method of \<^verbatim>\<open>minimize_scalar\<close> evaluates the objective between its
  bounds only and returns a point between them. On a run tree: every trial point, and
  every result the run can end with, lies in the interval. A run never raises when no
  branch of the tree does.
\<close>

primrec results_within :: "real \<Rightarrow> real \<Rightarrow> minimizer_run \<Rightarrow> bool" where
  "results_within lo hi (Result x) = (lo \<le> x \<and> x \<le> hi)"
| "results_within lo hi (Raises e) = True"
| "results_within lo hi (Trial x k) = (\<forall>y. results_within lo hi (k y))"

primrec trials_within :: "real \<Rightarrow> real \<Rightarrow> minimizer_run \<Rightarrow> bool" where
  "trials_within lo hi (Result x) = True"
| "trials_within lo hi (Raises e) = True"
| "trials_within lo hi (Trial x k) = (lo \<le> x \<and> x \<le> hi \<and> (\<forall>y. trials_within lo hi (k y)))"

primrec never_raises :: "minimizer_run \<Rightarrow> bool" where
  "never_raises (Result x) = True"
| "never_raises (Raises e) = False"
| "never_raises (Trial x k) = (\<forall>y. never_raises (k y))"

section \<open>Concrete engines, minimisers and notebooks\<close>

text \<open>
  Stand-ins for the external engine and minimiser, on which the functions above are run:
  a default configuration without truncation (\<open>nresultants = -1\<close>); an engine whose SNR
  equals the exposure count and that warns of partial saturation above five resultants;
  an engine with the same warnings whose SNR is 5 at every exposure count; an engine that
  always warns of full saturation; and a minimiser that evaluates the objective at the
  listed trial points and then returns a fixed point.
\<close>

definition example_calc :: calc where
  "example_calc =
     \<lparr>instrument = \<lparr>filter_name = ''f158'', detector_name = ''sca01''\<rparr>,
      detector = \<lparr>nexp = 1, nresultants = - 1, ma_table_name = ''c2a_img_hlwas''\<rparr>,
      normalization = \<lparr>norm_type = ''at_lambda'', norm_flux = 1 / 1000, norm_fluxunit = ''mjy'',
                       norm_waveunit = ''microns'', bandpass = ''''\<rparr>,
      sed = \<lparr>sed_type = ''flat'', sed_key = ''''\<rparr>\<rparr>"

definition toy_report :: "real \<Rightarrow> calc \<Rightarrow> report" where
  "toy_report s c =
     \<lparr>scalar = \<lparr>sn = s, total_exposure_time = 100 * of_int (nexp (detector c)),
                 sat_nresultants = 5\<rparr>,
      warnings = (if nresultants (detector c) = - 1 \<or> 5 < nresultants (detector c)
                  then [''partial_saturated'' \<mapsto> ''Partial saturation'']
                  else Map.empty)\<rparr>"

definition linear_engine :: engine where
  "linear_engine c = Inr (toy_report (of_int (nexp (detector c))) c)"

definition flat_engine :: engine where
  "flat_engine c = Inr (toy_report 5 c)"

definition saturated_engine :: engine where
  "saturated_engine c =
     Inr \<lparr>scalar = \<lparr>sn = 5, total_exposure_time = 100, sat_nresultants = 0\<rparr>,
          warnings = [''full_saturated'' \<mapsto> ''Full saturation'']\<rparr>"

definition scripted_minimizer :: "real list \<Rightarrow> real \<Rightarrow> minimizer" where
  "scripted_minimizer trials x bounds xatol =
     foldr (\<lambda>t k. Trial t (\<lambda>y. k)) trials (Result x)"

text \<open>
  A stand-in for \<^verbatim>\<open>np.arange\<close> with integer arguments and step 1. Arguments that fit a
  signed 64-bit integer give an integer array. When one of them does not, but both fit a
  signed or an unsigned 64-bit integer, the array is of 64-bit floats: it has
  \<open>stop - start\<close> elements, the first two are \<open>start\<close> and \<open>start + 1\<close> rounded to the
  nearest float (ties to even), and element \<open>i\<close> is the first plus \<open>i\<close> times the
  difference of the first two, in float arithmetic. Beyond that the elements are Python
  integers. Limits of storage are not modelled.
\<close>

function bit_length :: "int \<Rightarrow> nat" where
  "bit_length i = (if i \<le> 0 then 0 else Suc (bit_length (i div 2)))"
  by pat_completeness auto
termination
  by (relation "measure nat") auto

declare bit_length.simps [simp del]

definition f64 :: "int \<Rightarrow> int" where
  "f64 i =
     (let a = \<bar>i\<bar>;
          e = bit_length a
      in if e \<le> 53 then i
         else
           (let u = 2 ^ (e - 53);
                q = a div u;
                r = a mod u;
                q' = (if 2 * r < u \<or> (2 * r = u \<and> even q) then q else q + 1)
            in sgn i * (q' * u)))"

definition np_arange :: arange where
  "np_arange start stop =
     (if int64 start \<and> int64 stop then [start..stop - 1]
      else if - (2 ^ 63) \<le> start \<and> start < 2 ^ 64 \<and> - (2 ^ 63) \<le> stop \<and> stop < 2 ^ 64
      then
        (let first = f64 start;
             second = f64 (start + 1);
             delta = f64 (second - first)
         in map (\<lambda>i. if i = 0 then first else if i = 1 then second
                       else f64 (first + f64 (int i * delta)))
              [0..<nat (stop - start)])
      else [start..stop - 1])"

definition example_notebook :: notebook where
  "example_notebook =
     \<lparr>nb_calc = example_calc, nb_report = toy_report 5 example_calc, nresultant = None,
      printed = [], calls = []\<rparr>"

section \<open>Properties of the saturation back-off scan\<close>

lemma set_nresultants_twice: "set_nresultants a (set_nresultants b c) = set_nresultants a c"
  by (simp add: set_nresultants_def)

text \<open>
  While every level met is saturated the loop goes on: it assigns no result, prints
  nothing, and calls the engine once per level.
\<close>

lemma scan_loop_all_saturated:
  "\<forall>n\<in>set ns. saturated_at eng (nb_calc nb) (int n + 1) \<Longrightarrow>
   \<exists>nb'. scan_loop eng ns nb = Inr nb' \<and> nresultant nb' = nresultant nb \<and>
         printed nb' = printed nb \<and>
         calls nb' = calls nb @ map (\<lambda>n. set_nresultants (int n + 1) (nb_calc nb)) ns \<and>
         (\<exists>k. nb_calc nb' = set_nresultants k (nb_calc nb))"
proof (induction ns arbitrary: nb)
  case Nil
  have "nb_calc nb = set_nresultants (nresultants (detector (nb_calc nb))) (nb_calc nb)"
    by (simp add: set_nresultants_def)
  then show ?case by auto
next
  case (Cons n ns)
  let ?c = "set_nresultants (int n + 1) (nb_calc nb)"
  from Cons.prems obtain rep where rep: "eng ?c = Inr rep"
    and warn: "warnings rep ''partial_saturated'' \<noteq> None \<or> warnings rep ''full_saturated'' \<noteq> None"
    by (auto simp: saturated_at_def split: sum.splits)
  let ?nb = "nb\<lparr>nb_calc := ?c, nb_report := rep, calls := calls nb @ [?c]\<rparr>"
  have "\<forall>k\<in>set ns. saturated_at eng (nb_calc ?nb) (int k + 1)"
    using Cons.prems by (simp add: saturated_at_def set_nresultants_twice)
  from Cons.IH [OF this] obtain nb' where
    nb': "scan_loop eng ns ?nb = Inr nb'" "nresultant nb' = nresultant ?nb" "printed nb' = printed ?nb"
      "calls nb' = calls ?nb @ map (\<lambda>n. set_nresultants (int n + 1) (nb_calc ?nb)) ns"
      "\<exists>k. nb_calc nb' = set_nresultants k (nb_calc ?nb)"
    by blast
  have step: "scan_loop eng (n # ns) nb = scan_loop eng ns ?nb"
    using rep warn by (auto simp: perform_calculation_def Let_def)
  show ?case
    using nb' step by (auto simp: set_nresultants_twice)
qed

text \<open>At the first clean level after a run of saturated ones the loop breaks.\<close>

lemma scan_loop_stops:
  assumes sat: "\<forall>n\<in>set ns. saturated_at eng (nb_calc nb) (int n + 1)"
    and clean: "clean_at eng (nb_calc nb) (int m + 1)"
  shows "\<exists>nb'. scan_loop eng (ns @ m # rest) nb = Inr nb' \<and>
           nresultant nb' = Some (int m + 1) \<and>
           printed nb' = printed nb @
             [''No saturation happens with resultant '' @ str_int (int m + 1)] \<and>
           calls nb' = calls nb @ map (\<lambda>n. set_nresultants (int n + 1) (nb_calc nb)) (ns @ [m]) \<and>
           nb_calc nb' = set_nresultants (int m + 1) (nb_calc nb) \<and>
           eng (set_nresultants (int m + 1) (nb_calc nb)) = Inr (nb_report nb')"
  using sat clean
proof (induction ns arbitrary: nb)
  case Nil
  let ?c = "set_nresultants (int m + 1) (nb_calc nb)"
  from Nil.prems obtain rep where rep: "eng ?c = Inr rep"
    and ok: "warnings rep ''partial_saturated'' = None" "warnings rep ''full_saturated'' = None"
    by (auto simp: clean_at_def split: sum.splits)
  then show ?case
    by (simp add: perform_calculation_def Let_def del: str_nat.simps)
next
  case (Cons n ns)
  let ?c = "set_nresultants (int n + 1) (nb_calc nb)"
  from Cons.prems obtain rep where rep: "eng ?c = Inr rep"
    and warn: "warnings rep ''partial_saturated'' \<noteq> None \<or> warnings rep ''full_saturated'' \<noteq> None"
    by (auto simp: saturated_at_def split: sum.splits)
  let ?nb = "nb\<lparr>nb_calc := ?c, nb_report := rep, calls := calls nb @ [?c]\<rparr>"
  have sat': "\<forall>k\<in>set ns. saturated_at eng (nb_calc ?nb) (int k + 1)"
    using Cons.prems by (simp add: saturated_at_def set_nresultants_twice)
  have clean': "clean_at eng (nb_calc ?nb) (int m + 1)"
    using Cons.prems by (simp add: clean_at_def set_nresultants_twice)
  have step: "scan_loop eng ((n # ns) @ m # rest) nb = scan_loop eng (ns @ m # rest) ?nb"
    using rep warn by (auto simp: perform_calculation_def Let_def)
  from Cons.IH [OF sat' clean'] show ?case
    unfolding step by (auto simp: set_nresultants_twice simp del: str_nat.simps)
qed

lemma rev_range_split: "m < k \<Longrightarrow> rev [0..<k] = rev [Suc m..<k] @ m # rev [0..<m]"
proof -
  assume "m < k"
  then have "[0..<k] = [0..<m] @ m # [Suc m..<k]"
    by (metis upt_add_eq_append upt_conv_Cons le_add_diff_inverse less_imp_le_nat zero_le)
  then show ?thesis by simp
qed

lemma levels_upt: "m \<le> k \<Longrightarrow> map (\<lambda>n. int n + 1) [m..<k] = [int m + 1..int k]"
proof (induction k)
  case 0
  then show ?case by simp
next
  case (Suc k)
  show ?case
  proof (cases "m = Suc k")
    case True
    then show ?thesis by simp
  next
    case False
    with Suc.prems have le: "m \<le> k" by simp
    have "[int m + 1..int (Suc k)] = [int m + 1..int k] @ [int k + 1]"
      using le by (simp add: upto_rec2)
    with Suc.IH [OF le] le show ?thesis by simp
  qed
qed

lemma levels_map:
  "map (\<lambda>n. set_nresultants (int n + 1) c) (rev ns) =
   map (\<lambda>l. set_nresultants l c) (rev (map (\<lambda>n. int n + 1) ns))"
  by (simp add: rev_map comp_def)

text \<open>
  Claim C4. When a resultant count \<open>r\<close> between 1 and 10 is clean and every count above
  it, up to 10, is saturated, the scan ends normally, assigns \<open>r\<close> to \<^verbatim>\<open>nresultant\<close>,
  prints the message for \<open>r\<close>, has called the engine exactly at the levels
  10, 9, ..., \<open>r\<close> in that order, and leaves the report of level \<open>r\<close> in \<^verbatim>\<open>report\<close>.
  So the reported level is the largest clean one and every level above it was visited.
  Nothing is assumed about the levels below \<open>r\<close>.
\<close>

theorem scan_reports_largest_clean_level:
  assumes range: "1 \<le> r" "r \<le> 10"
    and clean: "clean_at eng (nb_calc nb) r"
    and above: "\<forall>r'. r < r' \<and> r' \<le> 10 \<longrightarrow> saturated_at eng (nb_calc nb) r'"
  shows "\<exists>nb'. saturation_scan eng nb = Inr nb' \<and>
           nresultant nb' = Some r \<and>
           printed nb' = printed nb @ [''No saturation happens with resultant '' @ str_int r] \<and>
           calls nb' = calls nb @ map (\<lambda>l. set_nresultants l (nb_calc nb)) (rev [r..10]) \<and>
           eng (set_nresultants r (nb_calc nb)) = Inr (nb_report nb')"
proof -
  define m where "m = nat (r - 1)"
  have m: "m < 10" "int m + 1 = r"
    using range by (simp_all add: m_def)
  have split: "rev [0..<10] = rev [Suc m..<10] @ m # rev [0..<m]"
    using m(1) by (rule rev_range_split)
  have sat: "\<forall>n\<in>set (rev [Suc m..<10]). saturated_at eng (nb_calc nb) (int n + 1)"
    using above m by auto
  have clean': "clean_at eng (nb_calc nb) (int m + 1)"
    using clean m by simp
  have "rev [Suc m..<10] @ [m] = rev [m..<10]"
    using m(1) by (simp add: upt_conv_Cons)
  moreover have "map (\<lambda>n. int n + 1) [m..<10] = [r..10]"
    using levels_upt [of m 10] m by simp
  ultimately have levels:
    "map (\<lambda>n. set_nresultants (int n + 1) (nb_calc nb)) (rev [Suc m..<10] @ [m]) =
     map (\<lambda>l. set_nresultants l (nb_calc nb)) (rev [r..10])"
    using levels_map [of "nb_calc nb" "[m..<10]"] by simp
  from scan_loop_stops [OF sat clean', of "rev [0..<m]"]
  show ?thesis
    unfolding saturation_scan_def split levels m(2) by blast
qed

text \<open>
  The engine that warns above five resultants: the scan reports 5, as in the notebook.
\<close>

theorem scan_reports_largest_clean_level_witness:
  "(1::int) \<le> 5 \<and> (5::int) \<le> 10 \<and> clean_at linear_engine (nb_calc example_notebook) 5 \<and>
   saturated_at linear_engine (nb_calc example_notebook) 6 \<and>
   (\<exists>nb'. saturation_scan linear_engine example_notebook = Inr nb' \<and>
      nresultant nb' = Some 5 \<and>
      printed nb' = [''No saturation happens with resultant 5''])"
proof -
  have clean: "clean_at linear_engine (nb_calc example_notebook) 5"
    by (simp add: clean_at_def linear_engine_def toy_report_def set_nresultants_def)
  have above: "\<forall>r'. 5 < r' \<and> r' \<le> 10 \<longrightarrow> saturated_at linear_engine (nb_calc example_notebook) r'"
    by (simp add: saturated_at_def linear_engine_def toy_report_def set_nresultants_def)
  have six: "saturated_at linear_engine (nb_calc example_notebook) 6"
    using above by simp
  have str: "str_int 5 = ''5''"
    by code_simp
  show ?thesis
    using scan_reports_largest_clean_level [of 5 linear_engine example_notebook, OF _ _ clean above]
      clean six str
    by (auto simp: example_notebook_def)
qed

text \<open>
  Claim C8. When every resultant count from 10 down to 1 is saturated, the scan ends
  normally after calling the engine at all ten levels: \<^verbatim>\<open>nresultant\<close> keeps the value it
  had before (none, when it was never assigned), nothing is printed and no error is raised.
\<close>

theorem scan_all_saturated_is_silent:
  assumes "\<forall>r. 1 \<le> r \<and> r \<le> 10 \<longrightarrow> saturated_at eng (nb_calc nb) r"
  shows "\<exists>nb'. saturation_scan eng nb = Inr nb' \<and>
           nresultant nb' = nresultant nb \<and> printed nb' = printed nb \<and>
           calls nb' = calls nb @ map (\<lambda>l. set_nresultants l (nb_calc nb)) (rev [1..10])"
proof -
  have sat: "\<forall>n\<in>set (rev [0..<10]). saturated_at eng (nb_calc nb) (int n + 1)"
    using assms by auto
  have "map (\<lambda>n. int n + 1) [0..<10] = [1..10]"
    using levels_upt [of 0 10] by simp
  then have levels:
    "map (\<lambda>n. set_nresultants (int n + 1) (nb_calc nb)) (rev [0..<10]) =
     map (\<lambda>l. set_nresultants l (nb_calc nb)) (rev [1..10])"
    using levels_map [of "nb_calc nb" "[0..<10]"] by simp
  from scan_loop_all_saturated [OF sat]
  show ?thesis
    unfolding saturation_scan_def levels by blast
qed

text \<open>The engine that always warns of full saturation.\<close>

theorem scan_all_saturated_is_silent_witness:
  "saturated_at saturated_engine (nb_calc example_notebook) 1 \<and>
   (\<exists>nb'. saturation_scan saturated_engine example_notebook = Inr nb' \<and>
      nresultant nb' = None \<and> printed nb' = [] \<and> length (calls nb') = 10)"
proof -
  have all: "\<forall>r. 1 \<le> r \<and> r \<le> 10 \<longrightarrow> saturated_at saturated_engine (nb_calc example_notebook) r"
    by (simp add: saturated_at_def saturated_engine_def)
  have one: "saturated_at saturated_engine (nb_calc example_notebook) 1"
    using all by simp
  have len: "length (rev [1..10::int]) = 10"
    by simp
  show ?thesis
    using scan_all_saturated_is_silent [OF all] one len
    by (auto simp: example_notebook_def)
qed

section \<open>Properties of the magnitude sweep\<close>

lemma set_norm_flux_twice: "set_norm_flux a (set_norm_flux b c) = set_norm_flux a c"
  by (simp add: set_norm_flux_def)

text \<open>
  The loop, when the engine returns a report at every magnitude left: one call and one
  SNR appended per magnitude, in order.
\<close>

lemma mag_loop_ok:
  "\<forall>m\<in>set mags. \<exists>rep. eng (set_norm_flux (of_int m) c) = Inr rep \<Longrightarrow>
   mag_loop eng mags c snrs tr =
     (Inr (snrs @ map (\<lambda>m. sn (scalar (projr (eng (set_norm_flux (of_int m) c))))) mags),
      tr @ map (\<lambda>m. set_norm_flux (of_int m) c) mags)"
proof (induction mags arbitrary: c snrs tr)
  case Nil
  then show ?case by simp
next
  case (Cons m mags)
  from Cons.prems obtain rep where rep: "eng (set_norm_flux (of_int m) c) = Inr rep"
    by auto
  have rest: "\<forall>k\<in>set mags. \<exists>r. eng (set_norm_flux (of_int k) (set_norm_flux (of_int m) c)) = Inr r"
    using Cons.prems by (simp add: set_norm_flux_twice)
  show ?case
    using Cons.IH [OF rest] rep
    by (simp add: perform_calculation_def set_norm_flux_twice)
qed

text \<open>
  Claim C6 fails for a bracket at the edge of the signed 64-bit integers: for the bracket
  \<open>(2^63 - 2, 2^63 - 1)\<close> the upper bound plus one does not fit, the array is of floats,
  and both magnitudes returned and evaluated are \<open>2^63\<close>, not the two bounds.
\<close>

theorem compute_mag_int64_counterexample:
  "fst (compute_mag linear_engine np_arange example_calc ''f129'' 10
          (9223372036854775806, 9223372036854775807) []) =
     Inr ([9223372036854775808, 9223372036854775808], [10, 10]) \<and>
   map (\<lambda>c. norm_flux (normalization c))
     (snd (compute_mag linear_engine np_arange example_calc ''f129'' 10
          (9223372036854775806, 9223372036854775807) [])) =
     [9223372036854775808, 9223372036854775808]"
proof -
  have a: "f64 9223372036854775806 = 9223372036854775808"
    by code_simp
  have b: "f64 9223372036854775807 = 9223372036854775808"
    by code_simp
  have two: "[0..<2] = [0, 1::nat]"
    by code_simp
  have range: "np_arange 9223372036854775806 (9223372036854775807 + 1) =
      [9223372036854775808, 9223372036854775808]"
    using a b two by (simp add: np_arange_def int64_def Let_def)
  have ok: "\<forall>m\<in>set [9223372036854775808, 9223372036854775808]. \<exists>rep. linear_engine
       (set_norm_flux (of_int m) (mag_base example_calc ''f129'' 10)) = Inr rep"
    by (simp add: linear_engine_def)
  note loop = mag_loop_ok [OF ok, of "[]" "[]"]
  have run: "compute_mag linear_engine np_arange example_calc ''f129'' 10
      (9223372036854775806, 9223372036854775807) [] =
    (Inr ([9223372036854775808, 9223372036854775808],
          map (\<lambda>m. sn (scalar (projr (linear_engine
                 (set_norm_flux (of_int m) (mag_base example_calc ''f129'' 10))))))
            [9223372036854775808, 9223372036854775808]),
     map (\<lambda>m. set_norm_flux (of_int m) (mag_base example_calc ''f129'' 10))
       [9223372036854775808, 9223372036854775808])"
    unfolding compute_mag_def Let_def fst_conv snd_conv range loop by simp
  show ?thesis
    unfolding run
    by (simp add: linear_engine_def toy_report_def set_norm_flux_def mag_base_def set_filter_def
        set_nexp_def)
qed

text \<open>
  Claim C6, amended. When the lower bound \<open>lo\<close> of the bracket and its upper bound plus
  one, \<open>hi + 1\<close>, fit a signed 64-bit integer, \<^verbatim>\<open>np.arange\<close> gives the integer array
  for such arguments, and the engine returns a report at every integer magnitude of the
  bracket, \<^verbatim>\<open>compute_mag\<close> returns the magnitudes \<open>lo, lo + 1, ..., hi\<close> and, at the
  same positions, the SNR of the engine's report at each of them; the engine has been
  called exactly once per magnitude, in that order, on the sweep's configuration with
  \<^verbatim>\<open>norm_flux\<close> set to the magnitude. A bracket with \<open>hi < lo\<close> gives two empty
  sequences and no call.
\<close>

theorem compute_mag_sweep:
  assumes "arange_int64 arange" "int64 lo" "int64 (hi + 1)"
    and "\<forall>m\<in>set [lo..hi]. \<exists>rep. eng (set_norm_flux (of_int m) (mag_base dc filt n)) = Inr rep"
  shows "compute_mag eng arange dc filt n (lo, hi) tr =
     (Inr ([lo..hi],
           map (\<lambda>m. sn (scalar (projr (eng (set_norm_flux (of_int m) (mag_base dc filt n))))))
             [lo..hi]),
      tr @ map (\<lambda>m. set_norm_flux (of_int m) (mag_base dc filt n)) [lo..hi])"
proof -
  from assms(1-3) have "arange lo (hi + 1) = [lo..hi]"
    by (simp add: arange_int64_def)
  then show ?thesis
    using mag_loop_ok [OF assms(4), of "[]" tr]
    by (simp add: compute_mag_def Let_def)
qed

text \<open>Ten exposures, magnitudes 18 to 20, on the engine whose SNR is the exposure count.\<close>

theorem compute_mag_sweep_witness:
  "arange_int64 np_arange \<and> int64 18 \<and> int64 (20 + 1) \<and>
   fst (compute_mag linear_engine np_arange example_calc ''f129'' 10 (18, 20) []) =
     Inr ([18, 19, 20], [10, 10, 10]) \<and>
   map (\<lambda>c. norm_flux (normalization c))
     (snd (compute_mag linear_engine np_arange example_calc ''f129'' 10 (18, 20) [])) =
     [18, 19, 20]"
proof -
  have ar: "arange_int64 np_arange"
    by (simp add: arange_int64_def np_arange_def)
  have lo: "int64 18" and hi: "int64 (20 + 1)"
    by (simp_all add: int64_def)
  have ok: "\<forall>m\<in>set [18..20]. \<exists>rep. linear_engine
       (set_norm_flux (of_int m) (mag_base example_calc ''f129'' 10)) = Inr rep"
    by (simp add: linear_engine_def)
  have range: "[18..20] = [18, 19, 20::int]"
    by code_simp
  note eq = compute_mag_sweep [OF ar lo hi ok, of "[]"]
  show ?thesis
    unfolding eq range using ar lo hi
    by (simp add: linear_engine_def toy_report_def set_norm_flux_def mag_base_def set_filter_def
        set_nexp_def)
qed

section \<open>Properties of the SNR-to-magnitude interpolation\<close>

text \<open>
  The ordered sample points are as many as the samples, and the abscissae of the first
  and of the last of them are sampled SNRs.
\<close>

lemma sorted_points:
  assumes "length xs = length ys" "xs \<noteq> []"
  shows "sort_key fst (zip xs ys) \<noteq> []"
    and "fst (hd (sort_key fst (zip xs ys))) \<in> set xs"
    and "fst (last (sort_key fst (zip xs ys))) \<in> set xs"
    and "set (map fst (sort_key fst (zip xs ys))) = set xs"
proof -
  let ?pts = "sort_key fst (zip xs ys)"
  have len: "length ?pts = length xs"
    using assms(1) by simp
  with assms(2) show ne: "?pts \<noteq> []"
    by (metis length_0_conv)
  have "map fst (zip xs ys) = xs"
    using assms(1) by (rule map_fst_zip)
  then have "fst ` set (zip xs ys) = set xs"
    by (metis set_map)
  then show fsts: "set (map fst ?pts) = set xs"
    by simp
  have "fst (hd ?pts) \<in> set (map fst ?pts)"
    using ne by (metis hd_in_set hd_map map_is_Nil_conv)
  with fsts show "fst (hd ?pts) \<in> set xs"
    by simp
  have "fst (last ?pts) \<in> set (map fst ?pts)"
    using ne by (metis last_in_set last_map map_is_Nil_conv)
  with fsts show "fst (last ?pts) \<in> set xs"
    by simp
qed

text \<open>
  Claim C7. For all sampled magnitudes and SNRs, a target SNR below every sampled SNR, or
  above every sampled SNR, makes \<^verbatim>\<open>_mag2sn_\<close> raise a \<^verbatim>\<open>ValueError\<close>; it returns no
  magnitude. This covers the empty sample, and samples of unequal lengths.
\<close>

theorem mag2sn_out_of_range_raises:
  assumes "(\<forall>s\<in>set computed_snrs. sntarget < s) \<or> (\<forall>s\<in>set computed_snrs. s < sntarget)"
  shows "\<exists>msg. mag2sn mag_range computed_snrs sntarget = Inl (ValueError msg)"
proof (cases "length computed_snrs = length mag_range \<and> computed_snrs \<noteq> []")
  case False
  then show ?thesis
    by (auto simp: mag2sn_def interp1d_def)
next
  case True
  let ?ys = "map real_of_int mag_range"
  let ?pts = "sort_key fst (zip computed_snrs ?ys)"
  have len: "length computed_snrs = length ?ys"
    using True by simp
  from True have ne: "computed_snrs \<noteq> []"
    by simp
  note first = sorted_points(2) [OF len ne] and final = sorted_points(3) [OF len ne]
  from assms show ?thesis
  proof
    assume "\<forall>s\<in>set computed_snrs. sntarget < s"
    with first have "sntarget < fst (hd ?pts)"
      by blast
    with True show ?thesis
      by (simp add: mag2sn_def interp1d_def Let_def)
  next
    assume "\<forall>s\<in>set computed_snrs. s < sntarget"
    with final have "fst (last ?pts) < sntarget"
      by blast
    with True show ?thesis
      by (simp add: mag2sn_def interp1d_def Let_def)
  qed
qed

text \<open>
  Four samples with SNRs from 100 down to 5: the target 4 is rejected, the target 35 lies
  between the samples at 20 and 50 and is interpolated.
\<close>

theorem mag2sn_out_of_range_raises_witness:
  "((\<forall>s\<in>set [100, 50, 20, 5]. (4::real) < s) \<or> (\<forall>s\<in>set [100, 50, 20, 5]. s < (4::real))) \<and>
   (\<exists>msg. mag2sn [18, 19, 20, 21] [100, 50, 20, 5] 4 = Inl (ValueError msg)) \<and>
   mag2sn [18, 19, 20, 21] [100, 50, 20, 5] 35 = Inr (39 / 2)"
proof -
  have below: "(\<forall>s\<in>set [100, 50, 20, 5]. (4::real) < s) \<or> (\<forall>s\<in>set [100, 50, 20, 5]. s < (4::real))"
    by simp
  have inside: "mag2sn [18, 19, 20, 21] [100, 50, 20, 5] 35 = Inr (39 / 2)"
    by (simp add: mag2sn_def interp1d_def)
  from mag2sn_out_of_range_raises [OF below, of "[18, 19, 20, 21]"] below inside
  show ?thesis
    by blast
qed


text \<open>
  Inside the sampled range a magnitude is returned, so the interpolation does not raise
  on every input.
\<close>

lemma sorted_hd_le: "sorted zs \<Longrightarrow> z \<in> set zs \<Longrightarrow> hd zs \<le> (z::real)"
  by (cases zs) auto

lemma sorted_le_last: "sorted zs \<Longrightarrow> z \<in> set zs \<Longrightarrow> (z::real) \<le> last zs"
  by (induction zs) auto

lemma mag2sn_in_range_returns:
  assumes "length computed_snrs = length mag_range"
    and "\<exists>s\<in>set computed_snrs. s \<le> sntarget" "\<exists>s\<in>set computed_snrs. sntarget \<le> s"
  shows "\<exists>m. mag2sn mag_range computed_snrs sntarget = Inr m"
proof -
  let ?ys = "map real_of_int mag_range"
  let ?pts = "sort_key fst (zip computed_snrs ?ys)"
  have len: "length computed_snrs = length ?ys"
    using assms(1) by simp
  from assms(2) have ne: "computed_snrs \<noteq> []"
    by auto
  have pne: "?pts \<noteq> []"
    by (rule sorted_points(1) [OF len ne])
  have srt: "sorted (map fst ?pts)"
    by (rule sorted_sort_key)
  have fsts: "set (map fst ?pts) = set computed_snrs"
    by (rule sorted_points(4) [OF len ne])
  from assms(2) obtain a where a: "a \<in> set (map fst ?pts)" "a \<le> sntarget"
    unfolding fsts by blast
  from sorted_hd_le [OF srt a(1)] have "fst (hd ?pts) \<le> a"
    using pne by (simp add: hd_map)
  with a(2) have lo: "\<not> sntarget < fst (hd ?pts)"
    by simp
  from assms(3) obtain b where b: "b \<in> set (map fst ?pts)" "sntarget \<le> b"
    unfolding fsts by blast
  from sorted_le_last [OF srt b(1)] have "b \<le> fst (last ?pts)"
    using pne by (simp add: last_map)
  with b(2) have hi: "\<not> fst (last ?pts) < sntarget"
    by simp
  from lo hi show ?thesis
    using assms(1) ne by (simp add: mag2sn_def interp1d_def Let_def)
qed

section \<open>Properties of the exposure-count optimisation\<close>

lemma set_nexp_twice: "set_nexp a (set_nexp b c) = set_nexp a c"
  by (simp add: set_nexp_def)

lemma nresultants_set_nexp: "nresultants (detector (set_nexp k c)) = nresultants (detector c)"
  by (simp add: set_nexp_def)

lemma nresultants_nexp_start: "nresultants (detector (nexp_start dc filt mag)) = 8"
  by (simp add: nexp_start_def set_nresultants_def)

lemma nexp_start_is_count_one: "set_nexp 1 (nexp_start dc filt mag) = nexp_start dc filt mag"
  by (simp add: nexp_start_def set_nresultants_def set_nexp_def)

text \<open>Truncation toward zero is monotone and stays within one of its argument.\<close>

lemma py_int_mono: "x \<le> y \<Longrightarrow> py_int x \<le> py_int y"
proof -
  assume le: "x \<le> y"
  show ?thesis
  proof (cases "0 \<le> x")
    case True
    with le show ?thesis by (simp add: py_int_def floor_mono)
  next
    case neg: False
    show ?thesis
    proof (cases "0 \<le> y")
      case True
      have "\<lceil>x\<rceil> \<le> 0" using neg by (simp add: ceiling_le_iff)
      moreover have "0 \<le> \<lfloor>y\<rfloor>" using True by simp
      ultimately have "\<lceil>x\<rceil> \<le> \<lfloor>y\<rfloor>" by (rule order_trans)
      then show ?thesis using neg True by (simp add: py_int_def)
    next
      case False
      with neg le show ?thesis by (simp add: py_int_def ceiling_mono)
    qed
  qed
qed

lemma py_int_le: "x \<le> hi \<Longrightarrow> of_int (py_int x) \<le> hi + 1"
  unfolding py_int_def by (auto intro: order_trans) linarith+

lemma py_int_ge_one: "1 \<le> x \<Longrightarrow> 1 \<le> py_int x"
  unfolding py_int_def by (auto simp: le_floor_iff)

text \<open>One call of the objective: one engine call on the trial count.\<close>

lemma nexp2sn_raises:
  "eng (set_nexp (py_int x) c) = Inl e \<Longrightarrow>
   nexp2sn eng x t (c, tr) = (Inl e, set_nexp (py_int x) c, tr @ [set_nexp (py_int x) c])"
  by (simp add: nexp2sn_def perform_calculation_def Let_def)

lemma nexp2sn_returns:
  "eng (set_nexp (py_int x) c) = Inr rep \<Longrightarrow>
   nexp2sn eng x t (c, tr) =
     (Inr ((t - sn (scalar rep))\<^sup>2), set_nexp (py_int x) c, tr @ [set_nexp (py_int x) c])"
  by (simp add: nexp2sn_def perform_calculation_def Let_def)

text \<open>A run of the minimiser changes nothing but the exposure count and only appends calls.\<close>

lemma run_minimizer_frame:
  "run_minimizer eng t r (set_nexp j c0, tr) = (res, c2, tr2) \<Longrightarrow>
   (\<exists>k. c2 = set_nexp k c0) \<and>
   (\<exists>new. tr2 = tr @ new \<and> (\<forall>c\<in>set new. \<exists>k. c = set_nexp k c0))"
proof (induction r arbitrary: j tr res c2 tr2)
  case (Result x)
  then show ?case by auto
next
  case (Raises e)
  then show ?case by auto
next
  case (Trial x k)
  let ?c = "set_nexp (py_int x) c0"
  show ?case
  proof (cases "eng ?c")
    case (Inl e)
    with Trial.prems show ?thesis
      using nexp2sn_raises [of eng x "set_nexp j c0" e t tr]
      by (auto simp: set_nexp_twice)
  next
    case (Inr rep)
    with Trial.prems have
      "run_minimizer eng t (k ((t - sn (scalar rep))\<^sup>2)) (?c, tr @ [?c]) = (res, c2, tr2)"
      using nexp2sn_returns [of eng x "set_nexp j c0" rep t tr]
      by (simp add: set_nexp_twice)
    from Trial.IH [OF _ this] obtain new where
      "\<exists>k. c2 = set_nexp k c0" "tr2 = (tr @ [?c]) @ new" "\<forall>c\<in>set new. \<exists>k. c = set_nexp k c0"
      by blast
    then show ?thesis
      by (intro conjI exI [of _ "?c # new"]) auto
  qed
qed

text \<open>What the contract of the minimiser gives for a run against the objective.\<close>

lemma run_minimizer_result_within:
  "results_within lo hi r \<Longrightarrow> run_minimizer eng t r st = (Inr x, st') \<Longrightarrow> lo \<le> x \<and> x \<le> hi"
proof (induction r arbitrary: st)
  case (Trial y k)
  from Trial.prems(2) obtain v st1 where
    "run_minimizer eng t (k v) st1 = (Inr x, st')"
    by (auto split: prod.splits sum.splits)
  moreover have "results_within lo hi (k v)"
    using Trial.prems(1) by simp
  ultimately show ?case
    using Trial.IH [of "k v" st1] by blast
qed auto

lemma run_minimizer_returns:
  assumes "never_raises r" "trials_within lo hi r"
    and "\<forall>k. py_int lo \<le> k \<and> k \<le> py_int hi \<longrightarrow> (\<exists>rep. eng (set_nexp k c0) = Inr rep)"
  shows "\<exists>x st'. run_minimizer eng t r (set_nexp j c0, tr) = (Inr x, st')"
  using assms(1,2)
proof (induction r arbitrary: j tr)
  case (Trial y k)
  from Trial.prems have y: "lo \<le> y" "y \<le> hi" by auto
  then have "py_int lo \<le> py_int y" "py_int y \<le> py_int hi"
    by (simp_all add: py_int_mono)
  with assms(3) obtain rep where rep: "eng (set_nexp (py_int y) c0) = Inr rep"
    by blast
  let ?v = "(t - sn (scalar rep))\<^sup>2"
  have "never_raises (k ?v)" "trials_within lo hi (k ?v)"
    using Trial.prems by auto
  from Trial.IH [OF _ this, of "py_int y" "tr @ [set_nexp (py_int y) c0]"] rep show ?case
    using nexp2sn_returns [of eng y "set_nexp j c0" rep t tr]
    by (simp add: set_nexp_twice)
qed auto


text \<open>
  The two ways in which \<^verbatim>\<open>compute_nexp\<close> returns: the first SNR is above the target, or
  the minimiser ran, its result was truncated and evaluated again.
\<close>

lemma compute_nexp_cases:
  assumes "compute_nexp eng ms dc filt target mag bracket xtol tr = (Inr (n, rep, t), tr')"
  obtains
    (short) "eng (nexp_start dc filt mag) = Inr rep" "target < sn (scalar rep)" "n = 1"
      "t = total_exposure_time (scalar rep)" "tr' = tr @ [nexp_start dc filt mag]"
  | (search) rep1 x c2 tr2 where
      "eng (nexp_start dc filt mag) = Inr rep1" "\<not> target < sn (scalar rep1)"
      "run_minimizer eng target (ms bracket xtol)
         (nexp_start dc filt mag, tr @ [nexp_start dc filt mag]) = (Inr x, c2, tr2)"
      "eng (set_nexp (py_int x) (nexp_start dc filt mag)) = Inr rep"
      "n = (if sn (scalar rep) < target then py_int x + 1 else py_int x)"
      "t = total_exposure_time (scalar rep)"
      "tr' = tr2 @ [set_nexp (py_int x) (nexp_start dc filt mag)]"
proof -
  let ?s = "nexp_start dc filt mag"
  obtain rep1 where rep1: "eng ?s = Inr rep1"
    using assms by (cases "eng ?s") (auto simp: compute_nexp_def perform_calculation_def)
  show thesis
  proof (cases "target < sn (scalar rep1)")
    case True
    with assms rep1 show thesis
      by (intro short) (auto simp: compute_nexp_def perform_calculation_def)
  next
    case False
    obtain res c2 tr2 where run:
      "run_minimizer eng target (ms bracket xtol) (?s, tr @ [?s]) = (res, c2, tr2)"
      by (metis prod_cases3)
    from assms rep1 False run obtain x where x: "res = Inr x"
      by (cases res) (auto simp: compute_nexp_def perform_calculation_def)
    have "?s = set_nexp 1 ?s"
      by (simp add: nexp_start_is_count_one)
    with run run_minimizer_frame [of eng target "ms bracket xtol" 1 ?s "tr @ [?s]" res c2 tr2]
    obtain k where c2: "c2 = set_nexp k ?s"
      by auto
    let ?c3 = "set_nexp (py_int x) ?s"
    have c3: "set_nexp (py_int x) c2 = ?c3"
      by (simp add: c2 set_nexp_twice)
    from assms rep1 False run x c3 obtain rep' where rep': "eng ?c3 = Inr rep'"
      by (cases "eng ?c3") (auto simp: compute_nexp_def perform_calculation_def Let_def)
    from assms rep1 False run x c3 rep' show thesis
      by (intro search [of rep1 x c2 tr2])
        (auto simp: compute_nexp_def perform_calculation_def Let_def split: if_splits)
  qed
qed

lemma compute_nexp_short_circuit:
  assumes "eng (nexp_start dc filt mag) = Inr rep" "target < sn (scalar rep)"
  shows "compute_nexp eng ms dc filt target mag bracket xtol tr =
    (Inr (1, rep, total_exposure_time (scalar rep)), tr @ [nexp_start dc filt mag])"
  using assms by (simp add: compute_nexp_def perform_calculation_def)

lemma compute_nexp_search:
  assumes "eng (nexp_start dc filt mag) = Inr rep1" "\<not> target < sn (scalar rep1)"
    and "run_minimizer eng target (ms bracket xtol)
         (nexp_start dc filt mag, tr @ [nexp_start dc filt mag]) = (Inr x, c2, tr2)"
    and "eng (set_nexp (py_int x) (nexp_start dc filt mag)) = Inr rep"
  shows "compute_nexp eng ms dc filt target mag bracket xtol tr =
    (Inr (if sn (scalar rep) < target then py_int x + 1 else py_int x, rep,
          total_exposure_time (scalar rep)),
     tr2 @ [set_nexp (py_int x) (nexp_start dc filt mag)])"
proof -
  let ?s = "nexp_start dc filt mag"
  have "?s = set_nexp 1 ?s"
    by (simp add: nexp_start_is_count_one)
  with assms(3) run_minimizer_frame [of eng target "ms bracket xtol" 1 ?s "tr @ [?s]" "Inr x" c2 tr2]
  obtain k where c2: "c2 = set_nexp k ?s"
    by auto
  have "set_nexp (py_int x) c2 = set_nexp (py_int x) ?s"
    by (simp add: c2 set_nexp_twice)
  with assms show ?thesis
    by (simp add: compute_nexp_def perform_calculation_def Let_def)
qed


text \<open>
  Runs on the concrete engines, with a minimiser that tries one point and returns a fixed
  one.
\<close>

lemma linear_engine_at:
  "linear_engine (set_nexp k (nexp_start dc filt mag)) =
     Inr (toy_report (of_int k) (set_nexp k (nexp_start dc filt mag)))"
  by (simp add: linear_engine_def set_nexp_def)

lemma sn_toy_report: "sn (scalar (toy_report s c)) = s"
  by (simp add: toy_report_def)

lemma time_toy_report:
  "total_exposure_time (scalar (toy_report s (set_nexp k c))) = 100 * of_int k"
  by (simp add: toy_report_def set_nexp_def)

lemma nexp_set_nexp: "nexp (detector (set_nexp k c)) = k"
  by (simp add: set_nexp_def)

lemma run_scripted_one_trial:
  assumes "eng (set_nexp (py_int p) c) = Inr rep"
  shows "run_minimizer eng t (scripted_minimizer [p] x bounds xatol) (c, tr) =
    (Inr x, set_nexp (py_int p) c, tr @ [set_nexp (py_int p) c])"
  using nexp2sn_returns [of eng p c rep t tr] assms by (simp add: scripted_minimizer_def)

lemma linear_run:
  "compute_nexp linear_engine (scripted_minimizer [p] x) dc filt target mag bracket xtol [] =
    (if target < 1 then (Inr (1, toy_report 1 (nexp_start dc filt mag), 100), [nexp_start dc filt mag])
     else (Inr (if of_int (py_int x) < target then py_int x + 1 else py_int x,
                toy_report (of_int (py_int x)) (set_nexp (py_int x) (nexp_start dc filt mag)),
                100 * of_int (py_int x)),
           [nexp_start dc filt mag, set_nexp (py_int p) (nexp_start dc filt mag),
            set_nexp (py_int x) (nexp_start dc filt mag)]))"
proof -
  let ?s = "nexp_start dc filt mag"
  let ?ms = "scripted_minimizer [p] x"
  have one: "linear_engine ?s = Inr (toy_report 1 ?s)"
    using linear_engine_at [of 1 dc filt mag] by (simp add: nexp_start_is_count_one)
  have t1: "total_exposure_time (scalar (toy_report 1 ?s)) = 100"
    using time_toy_report [of 1 1 ?s] by (simp add: nexp_start_is_count_one)
  show ?thesis
  proof (cases "target < 1")
    case True
    then show ?thesis
      using compute_nexp_short_circuit [of linear_engine dc filt mag "toy_report 1 ?s" target
          ?ms bracket xtol "[]"] one t1
      by (simp add: sn_toy_report)
  next
    case False
    then have no: "\<not> target < sn (scalar (toy_report 1 ?s))"
      by (simp add: sn_toy_report)
    have run: "run_minimizer linear_engine target (?ms bracket xtol) (?s, [] @ [?s]) =
        (Inr x, set_nexp (py_int p) ?s, ([] @ [?s]) @ [set_nexp (py_int p) ?s])"
      by (rule run_scripted_one_trial) (rule linear_engine_at)
    have fin: "linear_engine (set_nexp (py_int x) ?s) =
        Inr (toy_report (of_int (py_int x)) (set_nexp (py_int x) ?s))"
      by (rule linear_engine_at)
    from compute_nexp_search [where ms = ?ms and bracket = bracket and xtol = xtol,
        OF one no run fin]
    show ?thesis
      using False by (simp add: sn_toy_report time_toy_report)
  qed
qed

lemma flat_run:
  "compute_nexp flat_engine (scripted_minimizer [p] x) dc filt 5 mag bracket xtol [] =
     (Inr (py_int x, toy_report 5 (set_nexp (py_int x) (nexp_start dc filt mag)),
           100 * of_int (py_int x)),
      [nexp_start dc filt mag, set_nexp (py_int p) (nexp_start dc filt mag),
       set_nexp (py_int x) (nexp_start dc filt mag)])"
proof -
  let ?s = "nexp_start dc filt mag"
  let ?ms = "scripted_minimizer [p] x"
  have at: "flat_engine c = Inr (toy_report 5 c)" for c
    by (simp add: flat_engine_def)
  have no: "\<not> 5 < sn (scalar (toy_report 5 ?s))"
    by (simp add: sn_toy_report)
  have run: "run_minimizer flat_engine 5 (?ms bracket xtol) (?s, [] @ [?s]) =
      (Inr x, set_nexp (py_int p) ?s, ([] @ [?s]) @ [set_nexp (py_int p) ?s])"
    by (rule run_scripted_one_trial) (rule at)
  have start: "flat_engine ?s = Inr (toy_report 5 ?s)"
    by (rule at)
  have fin: "flat_engine (set_nexp (py_int x) ?s) = Inr (toy_report 5 (set_nexp (py_int x) ?s))"
    by (rule at)
  from compute_nexp_search [where ms = ?ms and bracket = bracket and xtol = xtol,
      OF start no run fin]
  show ?thesis
    by (simp add: sn_toy_report time_toy_report)
qed

text \<open>
  Claim C1. The source compares with \<^verbatim>\<open>>\<close>: an SNR at one exposure that equals the
  target does not take the short cut. On the engine whose SNR is the exposure count, with
  target 1, the engine is called three times, at the counts 1, 382 (the trial) and 1 (the
  truncated result 1.3). On the engine whose SNR is 5 at every count, with target 5, the
  returned count is 382, the truncated result of the minimiser, and not 1. When the SNR
  at one exposure is above the target, \<open>compute_nexp_short_circuit\<close> applies: the count
  is 1 after a single engine call.
\<close>

theorem compute_nexp_equal_snr_runs_search:
  "map (\<lambda>c. nexp (detector c))
     (snd (compute_nexp linear_engine (scripted_minimizer [3826 / 10] (13 / 10)) example_calc
        ''f129'' 1 (2684 / 100) default_nexp_bracket default_xtol [])) = [1, 382, 1] \<and>
   fst (compute_nexp flat_engine (scripted_minimizer [3826 / 10] (3826 / 10)) example_calc
        ''f129'' 5 (2684 / 100) default_nexp_bracket default_xtol []) =
     Inr (382, toy_report 5 (set_nexp 382 (nexp_start example_calc ''f129'' (2684 / 100))), 38200)"
proof -
  have "nexp (detector (nexp_start example_calc ''f129'' (2684 / 100))) = 1"
    using nexp_set_nexp [of 1 "nexp_start example_calc ''f129'' (2684 / 100)"]
    by (simp only: nexp_start_is_count_one)
  then show ?thesis
    unfolding linear_run flat_run by (simp add: py_int_def nexp_set_nexp)
qed

text \<open>
  Claim C2. On the engine whose SNR is the exposure count, with target 5.5 and the
  minimiser's result 5.4: the truncated count 5 has SNR 5, below the target, so the
  returned count is 6; the returned report and exposure time (500) are those of the
  evaluation at 5 exposures, while the engine at 6 exposures gives another report, with
  exposure time 600. The count is incremented without a new evaluation.
\<close>

theorem compute_nexp_increment_keeps_old_report:
  "fst (compute_nexp linear_engine (scripted_minimizer [3826 / 10] (27 / 5)) example_calc
        ''f129'' (11 / 2) (2684 / 100) default_nexp_bracket default_xtol []) =
     Inr (6, toy_report 5 (set_nexp 5 (nexp_start example_calc ''f129'' (2684 / 100))), 500) \<and>
   linear_engine (set_nexp 6 (nexp_start example_calc ''f129'' (2684 / 100))) =
     Inr (toy_report 6 (set_nexp 6 (nexp_start example_calc ''f129'' (2684 / 100)))) \<and>
   total_exposure_time (scalar
     (toy_report 6 (set_nexp 6 (nexp_start example_calc ''f129'' (2684 / 100))))) = 600"
  using linear_engine_at [of 6 example_calc "''f129''" "2684 / 100"]
  unfolding linear_run by (simp add: py_int_def time_toy_report)


text \<open>
  Claim C3. Whenever \<^verbatim>\<open>compute_nexp\<close> returns a count \<open>n\<close> and the engine returns a
  report at \<open>n\<close> exposures, the SNR of that report is at least the target, unless the
  count was incremented: then the returned report is the evaluation at \<open>n - 1\<close>, with an
  SNR below the target, and the SNR at \<open>n\<close> was not checked. This holds for every
  engine, monotone in the exposure count or not.
\<close>

theorem compute_nexp_reaches_target_unless_incremented:
  assumes "compute_nexp eng ms dc filt target mag bracket xtol tr = (Inr (n, rep, t), tr')"
    and "eng (set_nexp n (nexp_start dc filt mag)) = Inr rep_n"
  shows "target \<le> sn (scalar rep_n) \<or>
         (sn (scalar rep) < target \<and>
          eng (set_nexp (n - 1) (nexp_start dc filt mag)) = Inr rep)"
  using assms(1)
proof (cases rule: compute_nexp_cases)
  case short
  with assms(2) show ?thesis
    by (simp add: nexp_start_is_count_one)
next
  case (search rep1 x c2 tr2)
  show ?thesis
  proof (cases "sn (scalar rep) < target")
    case True
    with search show ?thesis by simp
  next
    case False
    with search assms(2) show ?thesis by simp
  qed
qed

text \<open>Target 5.5 on the engine whose SNR is the exposure count: 6 exposures reach it.\<close>

theorem compute_nexp_reaches_target_unless_incremented_witness:
  "compute_nexp linear_engine (scripted_minimizer [3826 / 10] (27 / 5)) example_calc ''f129''
      (11 / 2) (2684 / 100) default_nexp_bracket default_xtol [] =
     (Inr (6, toy_report 5 (set_nexp 5 (nexp_start example_calc ''f129'' (2684 / 100))), 500),
      [nexp_start example_calc ''f129'' (2684 / 100),
       set_nexp 382 (nexp_start example_calc ''f129'' (2684 / 100)),
       set_nexp 5 (nexp_start example_calc ''f129'' (2684 / 100))]) \<and>
   linear_engine (set_nexp 6 (nexp_start example_calc ''f129'' (2684 / 100))) =
     Inr (toy_report 6 (set_nexp 6 (nexp_start example_calc ''f129'' (2684 / 100)))) \<and>
   11 / 2 \<le> sn (scalar (toy_report 6 (set_nexp 6 (nexp_start example_calc ''f129'' (2684 / 100)))))"
proof -
  let ?s = "nexp_start example_calc ''f129'' (2684 / 100)"
  have run: "compute_nexp linear_engine (scripted_minimizer [3826 / 10] (27 / 5)) example_calc
      ''f129'' (11 / 2) (2684 / 100) default_nexp_bracket default_xtol [] =
     (Inr (6, toy_report 5 (set_nexp 5 ?s), 500), [?s, set_nexp 382 ?s, set_nexp 5 ?s])"
    unfolding linear_run by (simp add: py_int_def)
  have six: "linear_engine (set_nexp 6 ?s) = Inr (toy_report 6 (set_nexp 6 ?s))"
    using linear_engine_at [of 6 example_calc "''f129''" "2684 / 100"] by simp
  from compute_nexp_reaches_target_unless_incremented [OF run six] run six
  show ?thesis
    by (simp add: sn_toy_report)
qed

text \<open>
  Every engine call of \<^verbatim>\<open>compute_nexp\<close>, whether it returns or raises: the first one on
  the starting configuration, all others on it with another exposure count.
\<close>

lemma compute_nexp_calls:
  "\<exists>new. snd (compute_nexp eng ms dc filt target mag bracket xtol tr) =
      tr @ nexp_start dc filt mag # new \<and>
      (\<forall>c\<in>set new. \<exists>k. c = set_nexp k (nexp_start dc filt mag))"
proof -
  let ?s = "nexp_start dc filt mag"
  let ?r = "compute_nexp eng ms dc filt target mag bracket xtol tr"
  show ?thesis
  proof (cases "eng ?s")
    case (Inl e)
    then have "snd ?r = tr @ ?s # []"
      by (simp add: compute_nexp_def perform_calculation_def)
    then show ?thesis by (intro exI [of _ "[]"]) simp
  next
    case (Inr rep1)
    show ?thesis
    proof (cases "target < sn (scalar rep1)")
      case True
      with Inr have "snd ?r = tr @ ?s # []"
        by (simp add: compute_nexp_def perform_calculation_def)
      then show ?thesis by (intro exI [of _ "[]"]) simp
    next
      case False
      obtain res c2 tr2 where run:
        "run_minimizer eng target (ms bracket xtol) (?s, tr @ [?s]) = (res, c2, tr2)"
        by (metis prod_cases3)
      have "?s = set_nexp 1 ?s"
        by (simp add: nexp_start_is_count_one)
      with run run_minimizer_frame [of eng target "ms bracket xtol" 1 ?s "tr @ [?s]" res c2 tr2]
      obtain k new where c2: "c2 = set_nexp k ?s" and tr2: "tr2 = (tr @ [?s]) @ new"
        and new: "\<forall>c\<in>set new. \<exists>k. c = set_nexp k ?s"
        by auto
      show ?thesis
      proof (cases res)
        case (Inl e)
        with Inr False run have "snd ?r = tr2"
          by (simp add: compute_nexp_def perform_calculation_def)
        with tr2 new show ?thesis by (intro exI [of _ new]) simp
      next
        case res: (Inr x)
        let ?c3 = "set_nexp (py_int x) ?s"
        have c3: "set_nexp (py_int x) c2 = ?c3"
          by (simp add: c2 set_nexp_twice)
        have "snd ?r = tr2 @ [?c3]"
          using Inr False run res c3
          by (cases "eng ?c3") (simp_all add: compute_nexp_def perform_calculation_def Let_def)
        with tr2 new show ?thesis by (intro exI [of _ "new @ [?c3]"]) auto
      qed
    qed
  qed
qed

text \<open>
  Claim C9. The engine calls of one execution of \<^verbatim>\<open>compute_nexp\<close> begin with the
  starting configuration, in which \<^verbatim>\<open>nresultants\<close> is 8; every configuration evaluated,
  the first check, the trials of the minimiser and the final evaluation, has
  \<^verbatim>\<open>nresultants\<close> 8 and differs from the starting configuration in \<^verbatim>\<open>nexp\<close> at most.
\<close>

theorem compute_nexp_evaluations_use_eight_resultants:
  "\<exists>new. snd (compute_nexp eng ms dc filt target mag bracket xtol tr) =
      tr @ nexp_start dc filt mag # new \<and>
      (\<forall>c\<in>set (nexp_start dc filt mag # new).
         nresultants (detector c) = 8 \<and> (\<exists>k. c = set_nexp k (nexp_start dc filt mag)))"
proof -
  let ?s = "nexp_start dc filt mag"
  from compute_nexp_calls [of eng ms dc filt target mag bracket xtol tr]
  obtain new where new: "snd (compute_nexp eng ms dc filt target mag bracket xtol tr) = tr @ ?s # new"
    "\<forall>c\<in>set new. \<exists>k. c = set_nexp k ?s"
    by blast
  have "?s = set_nexp 1 ?s"
    by (simp add: nexp_start_is_count_one)
  then have "\<exists>k. ?s = set_nexp k ?s" ..
  with new(2) have all: "\<forall>c\<in>set (?s # new). \<exists>k. c = set_nexp k ?s"
    by simp
  then have "\<forall>c\<in>set (?s # new). nresultants (detector c) = 8"
    using nresultants_set_nexp nresultants_nexp_start by metis
  with new(1) all show ?thesis
    by blast
qed

text \<open>A run with one trial: three engine calls.\<close>

theorem compute_nexp_evaluations_use_eight_resultants_witness:
  "\<exists>new. snd (compute_nexp linear_engine (scripted_minimizer [3826 / 10] (27 / 5)) example_calc
        ''f129'' (11 / 2) (2684 / 100) default_nexp_bracket default_xtol []) =
      [] @ nexp_start example_calc ''f129'' (2684 / 100) # new \<and>
      length new = 2 \<and>
      (\<forall>c\<in>set (nexp_start example_calc ''f129'' (2684 / 100) # new).
         nresultants (detector c) = 8 \<and>
         (\<exists>k. c = set_nexp k (nexp_start example_calc ''f129'' (2684 / 100))))"
proof -
  let ?s = "nexp_start example_calc ''f129'' (2684 / 100)"
  let ?r = "compute_nexp linear_engine (scripted_minimizer [3826 / 10] (27 / 5)) example_calc
        ''f129'' (11 / 2) (2684 / 100) default_nexp_bracket default_xtol []"
  from compute_nexp_evaluations_use_eight_resultants
    [of linear_engine "scripted_minimizer [3826 / 10] (27 / 5)" example_calc "''f129''" "11 / 2"
       "2684 / 100" default_nexp_bracket default_xtol "[]"]
  obtain new where new: "snd ?r = [] @ ?s # new"
    "\<forall>c\<in>set (?s # new). nresultants (detector c) = 8 \<and> (\<exists>k. c = set_nexp k ?s)"
    by blast
  have "length (snd ?r) = 3"
    unfolding linear_run by simp
  with new(1) have "length new = 2"
    by simp
  with new show ?thesis
    by blast
qed


text \<open>
  Claim C10 fails for a bracket that reaches below 1: with the bracket \<open>(-5, 10)\<close> and a
  minimiser's result of -3.5, inside the bracket, the truncated count is -3, its SNR is
  below the target 5, and the returned count is -2.
\<close>

theorem compute_nexp_count_below_one_counterexample:
  "fst (compute_nexp linear_engine (scripted_minimizer [1 / 2] (- 7 / 2)) example_calc ''f129''
      5 (2684 / 100) (- 5, 10) default_xtol []) =
     Inr (- 2, toy_report (- 3) (set_nexp (- 3) (nexp_start example_calc ''f129'' (2684 / 100))),
          - 300) \<and>
   results_within (- 5) 10 (scripted_minimizer [1 / 2] (- 7 / 2) (- 5, 10) default_xtol)"
  unfolding linear_run by (simp add: py_int_def scripted_minimizer_def)

text \<open>
  Claim C10, amended. When the lower bound of the bracket is at least 1 and the minimiser
  keeps its contract (its result lies within the bounds), a returned count is at least 1,
  and it is 1 (the short cut) or at most the upper bound plus one.
\<close>

theorem compute_nexp_count_bounds:
  assumes "compute_nexp eng ms dc filt target mag (lo, hi) xtol tr = (Inr (n, rep, t), tr')"
    and "results_within lo hi (ms (lo, hi) xtol)"
    and "1 \<le> lo"
  shows "1 \<le> n \<and> (n = 1 \<or> of_int n \<le> hi + 1)"
  using assms(1)
proof (cases rule: compute_nexp_cases)
  case short
  then show ?thesis by simp
next
  case (search rep1 x c2 tr2)
  from run_minimizer_result_within [OF assms(2) search(3)] have x: "lo \<le> x" "x \<le> hi"
    by simp_all
  from x(1) assms(3) have pos: "0 \<le> x" "1 \<le> py_int x"
    by (simp_all add: py_int_ge_one)
  have "of_int (py_int x) \<le> x"
    using pos(1) by (simp add: py_int_def)
  with x(2) have "of_int (py_int x) \<le> hi"
    by simp
  with pos(2) search(5) show ?thesis
    by (auto split: if_splits)
qed

text \<open>The default bracket: 6 exposures lie between 1 and 1001.\<close>

theorem compute_nexp_count_bounds_witness:
  "compute_nexp linear_engine (scripted_minimizer [3826 / 10] (27 / 5)) example_calc ''f129''
      (11 / 2) (2684 / 100) (1, 1000) default_xtol [] =
     (Inr (6, toy_report 5 (set_nexp 5 (nexp_start example_calc ''f129'' (2684 / 100))), 500),
      [nexp_start example_calc ''f129'' (2684 / 100),
       set_nexp 382 (nexp_start example_calc ''f129'' (2684 / 100)),
       set_nexp 5 (nexp_start example_calc ''f129'' (2684 / 100))]) \<and>
   results_within 1 1000 (scripted_minimizer [3826 / 10] (27 / 5) (1, 1000) default_xtol) \<and>
   (1::real) \<le> 1 \<and> (1::int) \<le> 6 \<and> real_of_int 6 \<le> 1000 + 1"
proof -
  let ?s = "nexp_start example_calc ''f129'' (2684 / 100)"
  have run: "compute_nexp linear_engine (scripted_minimizer [3826 / 10] (27 / 5)) example_calc
      ''f129'' (11 / 2) (2684 / 100) (1, 1000) default_xtol [] =
     (Inr (6, toy_report 5 (set_nexp 5 ?s), 500), [?s, set_nexp 382 ?s, set_nexp 5 ?s])"
    unfolding linear_run by (simp add: py_int_def)
  have within: "results_within 1 1000 (scripted_minimizer [3826 / 10] (27 / 5) (1, 1000) default_xtol)"
    by (simp add: scripted_minimizer_def)
  have lo: "(1::real) \<le> 1"
    by simp
  from compute_nexp_count_bounds [OF run within lo] run within
  show ?thesis
    by simp
qed

text \<open>
  Claim C5 fails: on the engine whose SNR is the exposure count, no count of the default
  bracket reaches the target 5000, and the call returns 1000 exposures with a report whose
  SNR is 999; nothing is raised.
\<close>

theorem compute_nexp_infeasible_target_counterexample:
  "fst (compute_nexp linear_engine (scripted_minimizer [3826 / 10] (9999 / 10)) example_calc
      ''f129'' 5000 (2684 / 100) default_nexp_bracket default_xtol []) =
     Inr (1000, toy_report 999 (set_nexp 999 (nexp_start example_calc ''f129'' (2684 / 100))),
          99900) \<and>
   sn (scalar (toy_report 999 (set_nexp 999 (nexp_start example_calc ''f129'' (2684 / 100))))) =
     999"
  unfolding linear_run by (simp add: py_int_def sn_toy_report)

text \<open>
  Claim C5, amended. \<^verbatim>\<open>compute_nexp\<close> has no check of feasibility and raises nothing
  of its own. When the engine returns a report with an SNR below the target at one
  exposure and at every count of the bracket, and the minimiser keeps its contract and
  does not raise, the call returns normally, with an exposure count, a report and an
  exposure time: no condition is surfaced.
\<close>

theorem compute_nexp_infeasible_target_returns:
  assumes "never_raises (ms (lo, hi) xtol)"
    and "trials_within lo hi (ms (lo, hi) xtol)"
    and "results_within lo hi (ms (lo, hi) xtol)"
    and "\<forall>k. (k = 1 \<or> py_int lo \<le> k \<and> k \<le> py_int hi) \<longrightarrow>
           (\<exists>rep. eng (set_nexp k (nexp_start dc filt mag)) = Inr rep \<and> sn (scalar rep) < target)"
  shows "\<exists>n rep t tr'.
           compute_nexp eng ms dc filt target mag (lo, hi) xtol tr = (Inr (n, rep, t), tr')"
proof -
  let ?s = "nexp_start dc filt mag"
  have s1: "set_nexp 1 ?s = ?s"
    by (rule nexp_start_is_count_one)
  from assms(4) obtain rep1 where rep1: "eng ?s = Inr rep1" "sn (scalar rep1) < target"
    using s1 by metis
  then have no: "\<not> target < sn (scalar rep1)"
    by simp
  have ok: "\<forall>k. py_int lo \<le> k \<and> k \<le> py_int hi \<longrightarrow> (\<exists>rep. eng (set_nexp k ?s) = Inr rep)"
    using assms(4) by blast
  from run_minimizer_returns [OF assms(1,2) ok, of target 1 "tr @ [?s]"]
  obtain x c2 tr2 where run:
    "run_minimizer eng target (ms (lo, hi) xtol) (?s, tr @ [?s]) = (Inr x, c2, tr2)"
    unfolding s1 by auto
  from run_minimizer_result_within [OF assms(3) run] have "lo \<le> x" "x \<le> hi"
    by simp_all
  then have n: "py_int lo \<le> py_int x" "py_int x \<le> py_int hi"
    by (simp_all add: py_int_mono)
  with assms(4) obtain rep where rep: "eng (set_nexp (py_int x) ?s) = Inr rep"
    by blast
  from compute_nexp_search [where ms = ms and bracket = "(lo, hi)" and xtol = xtol,
      OF rep1(1) no run rep]
  show ?thesis
    by blast
qed

text \<open>Target 5000 with the default bracket.\<close>

theorem compute_nexp_infeasible_target_returns_witness:
  "never_raises (scripted_minimizer [3826 / 10] (9999 / 10) (1, 1000) default_xtol) \<and>
   trials_within 1 1000 (scripted_minimizer [3826 / 10] (9999 / 10) (1, 1000) default_xtol) \<and>
   results_within 1 1000 (scripted_minimizer [3826 / 10] (9999 / 10) (1, 1000) default_xtol) \<and>
   (\<exists>n rep t tr'.
      compute_nexp linear_engine (scripted_minimizer [3826 / 10] (9999 / 10)) example_calc ''f129''
          5000 (2684 / 100) (1, 1000) default_xtol [] = (Inr (n, rep, t), tr'))"
proof -
  let ?ms = "scripted_minimizer [3826 / 10] (9999 / 10)"
  let ?s = "nexp_start example_calc ''f129'' (2684 / 100)"
  have a: "never_raises (?ms (1, 1000) default_xtol)"
    by (simp add: scripted_minimizer_def)
  have b: "trials_within 1 1000 (?ms (1, 1000) default_xtol)"
    by (simp add: scripted_minimizer_def)
  have c: "results_within 1 1000 (?ms (1, 1000) default_xtol)"
    by (simp add: scripted_minimizer_def)
  have d: "\<forall>k. (k = 1 \<or> py_int 1 \<le> k \<and> k \<le> py_int 1000) \<longrightarrow>
      (\<exists>rep. linear_engine (set_nexp k ?s) = Inr rep \<and> sn (scalar rep) < 5000)"
    by (auto simp: linear_engine_at sn_toy_report py_int_def)
  from compute_nexp_infeasible_target_returns
    [where ms = ?ms and lo = 1 and hi = 1000 and xtol = default_xtol and tr = "[]", OF a b c d]
    a b c
  show ?thesis
    by blast
qed

end
